theory Spec2Isabelle
  imports Main
begin

section \<open>Resource triggers of samcli/lib/utils/resource\_trigger.py\<close>

text \<open>
  The module turns a template file, a function, a layer or an API resource into the
  path handlers an observer registers. The embedding follows the classes of the module:
  every constructor is a function returning either the raised exception or the
  constructed object, every collaborator the module imports is a parameter, and
  callbacks are functions on an explicit world state.
\<close>

subsection \<open>Python values, exceptions, callbacks\<close>

text \<open>
  A resource record is a \<open>Dict[str, Any]\<close>: the values a parsed template can hold.
  A dictionary is an association list read with \<open>map_of\<close>.
\<close>

datatype pyval =
    PNone
  | PBool bool
  | PInt int
  | PStr string
  | PList "pyval list"
  | PDict "(string \<times> pyval) list"

type_synonym pydict = "(string \<times> pyval) list"

text \<open>Python's truth value testing, as used by \<open>if not x\<close>.\<close>

fun truthy :: "pyval \<Rightarrow> bool" where
  "truthy PNone = False"
| "truthy (PBool b) = b"
| "truthy (PInt i) = (i \<noteq> 0)"
| "truthy (PStr s) = (s \<noteq> [])"
| "truthy (PList xs) = (xs \<noteq> [])"
| "truthy (PDict d) = (d \<noteq> [])"

text \<open>\<open>d.get(k, default)\<close> on a dictionary.\<close>

definition dict_get :: "pydict \<Rightarrow> string \<Rightarrow> pyval \<Rightarrow> pyval" where
  "dict_get d k dflt = (case map_of d k of None \<Rightarrow> dflt | Some v \<Rightarrow> v)"

text \<open>
  The exceptions the constructors raise, and the two built-in exceptions that the
  attribute access and the path construction of \<open>APIGatewayCodeTrigger.__init__\<close> raise
  on a value of the wrong type.
\<close>

datatype error =
    ResourceNotFound
  | FunctionNotFound
  | MissingCodeUri
  | MissingDefinitionUri
  | AttributeError
  | TypeError

text \<open>
  A \<open>watchdog\<close> file system event, reduced to what the matching event handlers read:
  the source path, the destination path (only move events have the attribute) and
  whether the subject is a directory.
\<close>

record FileSystemEvent =
  src_path :: string
  dest_path :: "string option"
  is_directory :: bool

text \<open>
  \<open>OnChangeCallback\<close>: called with an optional event, returns nothing, acts on the
  world \<open>'w\<close> and may raise an exception \<open>'x\<close> of the caller's own.
\<close>

type_synonym ('w, 'x) OnChangeCallback = "FileSystemEvent option \<Rightarrow> 'w \<Rightarrow> 'x + 'w"

subsection \<open>Collaborators\<close>

text \<open>
  Modelled from the spec: the \<open>Function\<close> view of \<open>samcli.lib.providers.provider\<close>, which
  exposes \<open>codeuri: Optional[str]\<close> and \<open>metadata: Optional[Dict]\<close>. The image trigger
  casts the metadata value it reads to \<open>Optional[str]\<close>, so the values are optional
  strings.
\<close>

record Function =
  codeuri :: "string option"
  metadata :: "(string \<times> string option) list option"

text \<open>
  Modelled from the spec: the \<open>LayerVersion\<close> view of \<open>samcli.lib.providers.provider\<close>,
  which exposes \<open>codeuri: Optional[str]\<close>.
\<close>

record LayerVersion =
  layer_codeuri :: "string option"

text \<open>
  The lookups the constructors call: \<open>get_resource_by_id(stacks, identifier)\<close>,
  \<open>SamFunctionProvider(stacks).get(name)\<close>, \<open>SamLayerProvider(stacks).get(name)\<close> and
  \<open>str(identifier)\<close>. Stacks \<open>'s\<close> and identifiers \<open>'i\<close> are opaque here.
\<close>

record ('s, 'i) providers =
  get_resource_by_id :: "'s list \<Rightarrow> 'i \<Rightarrow> pydict option"
  SamFunctionProvider_get :: "'s list \<Rightarrow> string \<Rightarrow> Function option"
  SamLayerProvider_get :: "'s list \<Rightarrow> string \<Rightarrow> LayerVersion option"
  str_of :: "'i \<Rightarrow> string"

text \<open>
  \<open>pathlib\<close>: \<open>Path(s).resolve()\<close> and \<open>.parent\<close>, on paths in their string form.
\<close>

record pathlib =
  resolve :: "string \<Rightarrow> string"
  parent :: "string \<Rightarrow> string"

subsection \<open>Regular expressions and shell patterns of the event handlers\<close>

text \<open>
  The single-file handler builds the regular expression \<open>^\<close> + \<open>re.escape(path)\<close> +
  \<open>$\<close>, and \<open>watchdog\<close> applies it with \<open>re.match\<close>. The functions below are Python's
  \<open>re\<close> module on the fragment such expressions lie in: the two anchors, literal
  characters and escaped characters.

  \<open>re.escape\<close> is the one the unit test of the module pins down
  (\<open>"/parent/file"\<close> becomes \<open>"\\/parent\\/file"\<close>): every character that is not an
  ASCII letter, a digit or the underscore gets a backslash, and the null character
  becomes \<open>\\000\<close>.
\<close>

abbreviation backslash :: char where
  "backslash \<equiv> CHR 0x5C"

abbreviation newline :: char where
  "newline \<equiv> CHR 0x0A"

definition alphanum_str :: string where
  "alphanum_str = ''_abcdefghijklmnopqrstuvwxyzABCDEFGHIJKLMNOPQRSTUVWXYZ0123456789''"

definition alphanum :: "char \<Rightarrow> bool" where
  "alphanum c = (c \<in> set alphanum_str)"

fun re_escape :: "string \<Rightarrow> string" where
  "re_escape [] = []"
| "re_escape (c # cs) =
     (if alphanum c then [c]
      else if c = CHR 0x00 then [backslash, CHR ''0'', CHR ''0'', CHR ''0'']
      else [backslash, c]) @ re_escape cs"

datatype re_item = Bol | Eol | Lit char

definition re_special :: "char \<Rightarrow> bool" where
  "re_special c = (c \<in> set ''.*+?{}[]|()'')"

text \<open>
  Parsing: \<open>None\<close> is an expression outside the fragment (repetition, classes, groups,
  alternation, class escapes such as \<open>\\d\<close>, back references). A backslash before a
  character that is no letter and no digit makes the character literal; \<open>\\000\<close> is the
  octal escape of the null character.
\<close>

fun re_parse :: "string \<Rightarrow> re_item list option" where
  "re_parse [] = Some []"
| "re_parse (c # cs) =
     (if c = CHR ''^'' then map_option (Cons Bol) (re_parse cs)
      else if c = CHR ''$'' then map_option (Cons Eol) (re_parse cs)
      else if c = backslash then
        (case cs of
           [] \<Rightarrow> None
         | d # ds \<Rightarrow>
             if d = CHR ''0'' then
               (if take 2 ds = [CHR ''0'', CHR ''0'']
                then map_option (Cons (Lit (CHR 0x00))) (re_parse (drop 2 ds))
                else None)
             else if alphanum d then None
             else map_option (Cons (Lit d)) (re_parse ds))
      else if re_special c then None
      else map_option (Cons (Lit c)) (re_parse cs))"

text \<open>ASCII lower case, for the handlers that are not case sensitive (\<open>re.I\<close>).\<close>

definition lower_char :: "char \<Rightarrow> char" where
  "lower_char c =
     (if 65 \<le> (of_char c :: nat) \<and> (of_char c :: nat) \<le> 90
      then char_of (of_char c + 32 :: nat) else c)"

text \<open>
  \<open>re.match\<close>: the expression is matched at the start of the string and need not reach
  its end. \<open>^\<close> matches at the start of the string only, and \<open>$\<close> matches at the end of
  the string or just before the newline at the end of the string. The first argument
  is the handler's \<open>case_sensitive\<close> flag, the third says whether the position is still
  the start of the string.
\<close>

fun re_run :: "bool \<Rightarrow> re_item list \<Rightarrow> bool \<Rightarrow> string \<Rightarrow> bool" where
  "re_run cs [] st s = True"
| "re_run cs (Bol # r) st s = (st \<and> re_run cs r st s)"
| "re_run cs (Eol # r) st s = ((s = [] \<or> s = [newline]) \<and> re_run cs r st s)"
| "re_run cs (Lit c # r) st [] = False"
| "re_run cs (Lit c # r) st (x # xs) =
     ((if cs then x = c else lower_char x = lower_char c) \<and> re_run cs r False xs)"

definition re_match :: "bool \<Rightarrow> re_item list \<Rightarrow> string \<Rightarrow> bool" where
  "re_match cs r s = re_run cs r True s"

text \<open>
  \<open>fnmatch.fnmatchcase(name, pat)\<close> for patterns of literal characters, \<open>*\<close> (any
  sequence of characters) and \<open>?\<close> (any one character); a pattern with a bracket is
  outside this fragment.
\<close>

fun fnmatchcase :: "string \<Rightarrow> string \<Rightarrow> bool" where
  "fnmatchcase s [] = (s = [])"
| "fnmatchcase [] (p # ps) = (p = CHR ''*'' \<and> fnmatchcase [] ps)"
| "fnmatchcase (c # cs) (p # ps) =
     (if p = CHR ''*'' then fnmatchcase (c # cs) ps \<or> fnmatchcase cs (p # ps)
      else if p = CHR ''?'' then fnmatchcase cs ps
      else p = c \<and> fnmatchcase cs ps)"

definition pattern_supported :: "string \<Rightarrow> bool" where
  "pattern_supported pat = (CHR ''['' \<notin> set pat)"

subsection \<open>Event handlers and path handlers\<close>

datatype match_rule =
    Regexes "string list" "string list"
  | Patterns "string list" "string list"

text \<open>
  A \<open>watchdog\<close> matching event handler: its rule (the regular expressions or patterns
  and the ones to ignore), its two flags, and the \<open>on_any_event\<close> method, which the
  triggers overwrite.
\<close>

record ('w, 'x) EventHandler =
  rule :: match_rule
  ignore_directories :: bool
  case_sensitive :: bool
  on_any_event :: "('w, 'x) OnChangeCallback"

text \<open>The inherited \<open>on_any_event\<close> does nothing.\<close>

definition no_op :: "('w, 'x) OnChangeCallback" where
  "no_op ev w = Inr w"

definition RegexMatchingEventHandler ::
  "string list \<Rightarrow> string list \<Rightarrow> bool \<Rightarrow> bool \<Rightarrow> ('w, 'x) EventHandler" where
  "RegexMatchingEventHandler rs irs ign cs_flag =
     \<lparr>rule = Regexes rs irs, ignore_directories = ign, case_sensitive = cs_flag,
      on_any_event = no_op\<rparr>"

definition PatternMatchingEventHandler ::
  "string list \<Rightarrow> string list \<Rightarrow> bool \<Rightarrow> bool \<Rightarrow> ('w, 'x) EventHandler" where
  "PatternMatchingEventHandler ps ips ign cs_flag =
     \<lparr>rule = Patterns ps ips, ignore_directories = ign, case_sensitive = cs_flag,
      on_any_event = no_op\<rparr>"

text \<open>
  The paths \<open>dispatch\<close> tests: the destination path when the event has one, then the
  source path when it is not empty.
\<close>

definition event_paths :: "FileSystemEvent \<Rightarrow> string list" where
  "event_paths ev =
     (case dest_path ev of None \<Rightarrow> [] | Some d \<Rightarrow> [d])
     @ (if src_path ev = [] then [] else [src_path ev])"

text \<open>
  The pattern handler matches with \<open>watchdog.utils.patterns\<close>, which asks
  \<open>PurePosixPath(path).match(pattern)\<close> when the handler is case sensitive. The
  functions below are that part of \<open>pathlib\<close>.

  \<open>str.split(sep)\<close>.
\<close>

fun split_on :: "char \<Rightarrow> string \<Rightarrow> string list" where
  "split_on sep [] = [[]]"
| "split_on sep (c # cs) =
     (if c = sep then [] # split_on sep cs
      else (case split_on sep cs of
              [] \<Rightarrow> [[c]]
            | x # xs \<Rightarrow> (c # x) # xs))"

text \<open>
  \<open>_PosixFlavour.splitroot\<close>: the root is \<open>//\<close> for exactly two leading slashes, \<open>/\<close>
  for any other number of them, and empty for a relative path; the rest is the path
  without its leading slashes.
\<close>

definition splitroot :: "string \<Rightarrow> string \<times> string" where
  "splitroot part =
     (let stripped = dropWhile (\<lambda>c. c = CHR ''/'') part;
          n = length part - length stripped
      in if n = 0 then ([], part)
         else if n = 2 then (''//'', stripped)
         else (''/'', stripped))"

text \<open>
  \<open>parse_parts\<close> of one string: the root and the parts, which are the root (when there
  is one) followed by the components between slashes that are neither empty nor \<open>.\<close>.
\<close>

definition parse_parts :: "string \<Rightarrow> string \<times> string list" where
  "parse_parts part =
     (if part = [] then ([], [])
      else (case splitroot part of
              (root, rel) \<Rightarrow>
                (root,
                 (if root = [] then [] else [root])
                 @ filter (\<lambda>x. x \<noteq> [] \<and> x \<noteq> ''.'') (split_on (CHR ''/'') rel))))"

definition path_parts :: "string \<Rightarrow> string list" where
  "path_parts p = snd (parse_parts p)"

text \<open>The loop of \<open>PurePath.match\<close>: the parts and the pattern parts, compared from the right.\<close>

definition parts_match :: "string list \<Rightarrow> string list \<Rightarrow> bool" where
  "parts_match parts pat_parts =
     list_all (\<lambda>(part, pat). fnmatchcase part pat) (zip (rev parts) (rev pat_parts))"

text \<open>
  \<open>PurePosixPath(path).match(pattern)\<close>. \<open>None\<close>: the pattern has no parts (the library
  raises \<open>ValueError\<close>) or has a bracket. A pattern with a root must match all the
  parts; a relative pattern matches the last parts of the path and fails on a path
  that has fewer parts than the pattern.
\<close>

definition PurePosixPath_match :: "string \<Rightarrow> string \<Rightarrow> bool option" where
  "PurePosixPath_match p path_pattern =
     (case parse_parts path_pattern of
        (pat_root, pat_parts) \<Rightarrow>
          if pat_parts = [] then None
          else if \<not> pattern_supported path_pattern then None
          else if pat_root \<noteq> [] \<and> pat_root \<noteq> fst (parse_parts p) then Some False
          else if pat_root \<noteq> [] then
            (if length pat_parts \<noteq> length (path_parts p) then Some False
             else Some (parts_match (path_parts p) (tl pat_parts)))
          else if length (path_parts p) < length pat_parts then Some False
          else Some (parts_match (path_parts p) pat_parts))"

text \<open>
  \<open>watchdog.utils.patterns._match_path\<close> for a case sensitive handler: some included
  pattern matches and no excluded pattern does. \<open>None\<close>: a pattern is both included and
  excluded (\<open>ValueError\<close>), or some pattern is outside the modelled fragment.
\<close>

definition match_path :: "string \<Rightarrow> string list \<Rightarrow> string list \<Rightarrow> bool option" where
  "match_path p included excluded =
     (if list_ex (\<lambda>pat. pat \<in> set excluded) included then None
      else case (those (map (PurePosixPath_match p) included),
                 those (map (PurePosixPath_match p) excluded)) of
             (Some inc, Some exc) \<Rightarrow> Some (list_ex id inc \<and> \<not> list_ex id exc)
           | _ \<Rightarrow> None)"

text \<open>
  \<open>watchdog.utils.patterns.match_any_paths\<close>: some path matches. A handler that is not
  case sensitive matches with \<open>PureWindowsPath\<close>, which is outside the model
  (\<open>None\<close>); the module builds case sensitive handlers only.
\<close>

definition match_any_paths ::
  "string list \<Rightarrow> string list \<Rightarrow> string list \<Rightarrow> bool \<Rightarrow> bool option" where
  "match_any_paths paths included excluded cs =
     (if paths = [] then Some False
      else if \<not> cs then None
      else map_option (list_ex id) (those (map (\<lambda>p. match_path p included excluded) paths)))"

text \<open>
  Whether \<open>dispatch\<close> calls \<open>on_any_event\<close> for an event. Directory events are dropped
  first when the handler ignores directories; then no path may match an ignored rule
  and some path must match a rule. \<open>None\<close>: a rule outside the modelled fragments.
\<close>

definition fires :: "('w, 'x) EventHandler \<Rightarrow> FileSystemEvent \<Rightarrow> bool option" where
  "fires h ev =
     (if ignore_directories h \<and> is_directory ev then Some False
      else case rule h of
        Regexes rs irs \<Rightarrow>
          (case (those (map re_parse rs), those (map re_parse irs)) of
             (Some crs, Some cirs) \<Rightarrow>
               Some (\<not> list_ex (\<lambda>r. list_ex (re_match (case_sensitive h) r) (event_paths ev)) cirs
                     \<and> list_ex (\<lambda>r. list_ex (re_match (case_sensitive h) r) (event_paths ev)) crs)
           | _ \<Rightarrow> None)
      | Patterns ps ips \<Rightarrow> match_any_paths (event_paths ev) ps ips (case_sensitive h))"

text \<open>
  Modelled from the spec: the \<open>PathHandler\<close> record of \<open>samcli.lib.utils.path_observer\<close>
  (the spec's watch target). The fields a factory does not pass keep their defaults:
  \<open>static_folder\<close> false, \<open>self_create\<close> and \<open>self_delete\<close> absent.
\<close>

record ('w, 'x) PathHandler =
  path :: string
  event_handler :: "('w, 'x) EventHandler"
  recursive :: bool
  static_folder :: bool
  self_create :: "('w, 'x) OnChangeCallback option"
  self_delete :: "('w, 'x) OnChangeCallback option"

subsection \<open>ResourceTrigger: the two factories\<close>

definition get_single_file_path_handler :: "pathlib \<Rightarrow> string \<Rightarrow> ('w, 'x) PathHandler" where
  "get_single_file_path_handler P file_path_str =
     (let file_path = resolve P file_path_str;
          folder_path = parent P file_path;
          file_handler = RegexMatchingEventHandler
            [[CHR ''^''] @ re_escape file_path @ [CHR ''$'']] [] True True
      in \<lparr>path = folder_path, event_handler = file_handler, recursive = False,
          static_folder = False, self_create = None, self_delete = None\<rparr>)"

definition get_dir_path_handler :: "pathlib \<Rightarrow> string \<Rightarrow> ('w, 'x) PathHandler" where
  "get_dir_path_handler P dir_path_str =
     (let dir_path = resolve P dir_path_str;
          file_handler = PatternMatchingEventHandler [[CHR ''*'']] [] False True
      in \<lparr>path = dir_path, event_handler = file_handler, recursive = True,
          static_folder = True, self_create = None, self_delete = None\<rparr>)"

subsection \<open>TemplateTrigger\<close>

text \<open>
  \<open>DefinitionValidator(Path(file))\<close> is a parameter: given the file it yields the
  \<open>validate\<close> method of the validator bound to it, which answers and updates the
  validator's own state inside the world.
\<close>

type_synonym 'w DefinitionValidator = "string \<Rightarrow> 'w \<Rightarrow> bool \<times> 'w"

record ('w, 'x) TemplateTrigger =
  template_file :: string
  on_template_change :: "('w, 'x) OnChangeCallback"
  validator :: "'w \<Rightarrow> bool \<times> 'w"

definition TemplateTrigger_init ::
  "'w DefinitionValidator \<Rightarrow> string \<Rightarrow> ('w, 'x) OnChangeCallback \<Rightarrow> ('w, 'x) TemplateTrigger" where
  "TemplateTrigger_init DV tf cb =
     \<lparr>template_file = tf, on_template_change = cb, validator = DV tf\<rparr>"

definition TemplateTrigger_validator_wrapper ::
  "('w, 'x) TemplateTrigger \<Rightarrow> ('w, 'x) OnChangeCallback" where
  "TemplateTrigger_validator_wrapper t ev w =
     (case validator t w of (ok, w') \<Rightarrow> if ok then on_template_change t ev w' else Inr w')"

definition TemplateTrigger_get_path_handlers ::
  "pathlib \<Rightarrow> ('w, 'x) TemplateTrigger \<Rightarrow> ('w, 'x) PathHandler list" where
  "TemplateTrigger_get_path_handlers P t =
     (let file_path_handler = get_single_file_path_handler P (template_file t)
      in [file_path_handler\<lparr>event_handler :=
            (event_handler file_path_handler)\<lparr>on_any_event := TemplateTrigger_validator_wrapper t\<rparr>\<rparr>])"

subsection \<open>CodeResourceTrigger\<close>

record ('w, 'x) CodeResourceTrigger =
  resource :: pydict
  on_code_change :: "('w, 'x) OnChangeCallback"

text \<open>\<open>if not resource\<close> holds for \<open>None\<close> and for the empty dictionary.\<close>

definition CodeResourceTrigger_init ::
  "('s, 'i) providers \<Rightarrow> 'i \<Rightarrow> 's list \<Rightarrow> ('w, 'x) OnChangeCallback
   \<Rightarrow> error + ('w, 'x) CodeResourceTrigger" where
  "CodeResourceTrigger_init E resource_identifier stacks cb =
     (case get_resource_by_id E stacks resource_identifier of
        None \<Rightarrow> Inl ResourceNotFound
      | Some r \<Rightarrow>
          if r = [] then Inl ResourceNotFound
          else Inr \<lparr>resource = r, on_code_change = cb\<rparr>)"

subsection \<open>LambdaFunctionCodeTrigger and its two subclasses\<close>

record ('w, 'x) LambdaFunctionCodeTrigger = "('w, 'x) CodeResourceTrigger" +
  lambda_function :: Function
  code_uri :: string

text \<open>
  The abstract \<open>_get_code_uri\<close> is the second argument. A \<open>Function\<close> is a named tuple,
  so \<open>if not function\<close> holds for \<open>None\<close> only; \<open>if not code_uri\<close> holds for \<open>None\<close> and
  for the empty string.
\<close>

definition LambdaFunctionCodeTrigger_init ::
  "('s, 'i) providers \<Rightarrow> (Function \<Rightarrow> string option) \<Rightarrow> 'i \<Rightarrow> 's list
   \<Rightarrow> ('w, 'x) OnChangeCallback \<Rightarrow> error + ('w, 'x) LambdaFunctionCodeTrigger" where
  "LambdaFunctionCodeTrigger_init E get_code_uri function_identifier stacks cb =
     (case CodeResourceTrigger_init E function_identifier stacks cb of
        Inl e \<Rightarrow> Inl e
      | Inr base \<Rightarrow>
          (case SamFunctionProvider_get E stacks (str_of E function_identifier) of
             None \<Rightarrow> Inl FunctionNotFound
           | Some f \<Rightarrow>
               (case get_code_uri f of
                  None \<Rightarrow> Inl MissingCodeUri
                | Some u \<Rightarrow>
                    if u = [] then Inl MissingCodeUri
                    else Inr \<lparr>resource = resource base, on_code_change = on_code_change base,
                              lambda_function = f, code_uri = u\<rparr>)))"

definition LambdaFunctionCodeTrigger_get_path_handlers ::
  "pathlib \<Rightarrow> ('w, 'x) LambdaFunctionCodeTrigger \<Rightarrow> ('w, 'x) PathHandler list" where
  "LambdaFunctionCodeTrigger_get_path_handlers P t =
     (let dir_path_handler = get_dir_path_handler P (code_uri t)
      in [dir_path_handler\<lparr>
            self_create := Some (on_code_change t),
            self_delete := Some (on_code_change t),
            event_handler := (event_handler dir_path_handler)\<lparr>on_any_event := on_code_change t\<rparr>\<rparr>])"

definition LambdaZipCodeTrigger_get_code_uri :: "Function \<Rightarrow> string option" where
  "LambdaZipCodeTrigger_get_code_uri f = codeuri f"

text \<open>\<open>if not metadata\<close> holds for \<open>None\<close> and for the empty dictionary.\<close>

definition LambdaImageCodeTrigger_get_code_uri :: "Function \<Rightarrow> string option" where
  "LambdaImageCodeTrigger_get_code_uri f =
     (case metadata f of
        None \<Rightarrow> None
      | Some m \<Rightarrow>
          if m = [] then None
          else (case map_of m ''DockerContext'' of None \<Rightarrow> None | Some v \<Rightarrow> v))"

definition LambdaZipCodeTrigger_init ::
  "('s, 'i) providers \<Rightarrow> 'i \<Rightarrow> 's list \<Rightarrow> ('w, 'x) OnChangeCallback
   \<Rightarrow> error + ('w, 'x) LambdaFunctionCodeTrigger" where
  "LambdaZipCodeTrigger_init E = LambdaFunctionCodeTrigger_init E LambdaZipCodeTrigger_get_code_uri"

definition LambdaImageCodeTrigger_init ::
  "('s, 'i) providers \<Rightarrow> 'i \<Rightarrow> 's list \<Rightarrow> ('w, 'x) OnChangeCallback
   \<Rightarrow> error + ('w, 'x) LambdaFunctionCodeTrigger" where
  "LambdaImageCodeTrigger_init E = LambdaFunctionCodeTrigger_init E LambdaImageCodeTrigger_get_code_uri"

subsection \<open>LambdaLayerCodeTrigger\<close>

record ('w, 'x) LambdaLayerCodeTrigger = "('w, 'x) CodeResourceTrigger" +
  layer :: LayerVersion
  layer_code_uri :: string

text \<open>A \<open>LayerVersion\<close> is an object without a length, so \<open>if not layer\<close> holds for \<open>None\<close> only.\<close>

definition LambdaLayerCodeTrigger_init ::
  "('s, 'i) providers \<Rightarrow> 'i \<Rightarrow> 's list \<Rightarrow> ('w, 'x) OnChangeCallback
   \<Rightarrow> error + ('w, 'x) LambdaLayerCodeTrigger" where
  "LambdaLayerCodeTrigger_init E layer_identifier stacks cb =
     (case CodeResourceTrigger_init E layer_identifier stacks cb of
        Inl e \<Rightarrow> Inl e
      | Inr base \<Rightarrow>
          (case SamLayerProvider_get E stacks (str_of E layer_identifier) of
             None \<Rightarrow> Inl ResourceNotFound
           | Some l \<Rightarrow>
               (case layer_codeuri l of
                  None \<Rightarrow> Inl MissingCodeUri
                | Some u \<Rightarrow>
                    if u = [] then Inl MissingCodeUri
                    else Inr \<lparr>resource = resource base, on_code_change = on_code_change base,
                              layer = l, layer_code_uri = u\<rparr>)))"

definition LambdaLayerCodeTrigger_get_path_handlers ::
  "pathlib \<Rightarrow> ('w, 'x) LambdaLayerCodeTrigger \<Rightarrow> ('w, 'x) PathHandler list" where
  "LambdaLayerCodeTrigger_get_path_handlers P t =
     (let dir_path_handler = get_dir_path_handler P (layer_code_uri t)
      in [dir_path_handler\<lparr>
            self_create := Some (on_code_change t),
            self_delete := Some (on_code_change t),
            event_handler := (event_handler dir_path_handler)\<lparr>on_any_event := on_code_change t\<rparr>\<rparr>])"

subsection \<open>APIGatewayCodeTrigger\<close>

record ('w, 'x) APIGatewayCodeTrigger = "('w, 'x) CodeResourceTrigger" +
  api_validator :: "'w \<Rightarrow> bool \<times> 'w"
  definition_file :: string

text \<open>
  \<open>self._resource.get("Properties", {}).get("DefinitionUri", None)\<close>: the second \<open>get\<close>
  is an attribute of a dictionary, so a \<open>Properties\<close> value that is present and no
  dictionary raises \<open>AttributeError\<close>.
\<close>

definition read_definition_uri :: "pydict \<Rightarrow> error + pyval" where
  "read_definition_uri r =
     (case dict_get r ''Properties'' (PDict []) of
        PDict props \<Rightarrow> Inr (dict_get props ''DefinitionUri'' PNone)
      | _ \<Rightarrow> Inl AttributeError)"

text \<open>
  After the check \<open>if not definition_file\<close> the value goes to \<open>Path\<close>, which accepts a
  string and raises \<open>TypeError\<close> on the other values of a template.
\<close>

definition APIGatewayCodeTrigger_init ::
  "('s, 'i) providers \<Rightarrow> 'w DefinitionValidator \<Rightarrow> 'i \<Rightarrow> 's list
   \<Rightarrow> ('w, 'x) OnChangeCallback \<Rightarrow> error + ('w, 'x) APIGatewayCodeTrigger" where
  "APIGatewayCodeTrigger_init E DV rest_api_identifier stacks cb =
     (case CodeResourceTrigger_init E rest_api_identifier stacks cb of
        Inl e \<Rightarrow> Inl e
      | Inr base \<Rightarrow>
          (case read_definition_uri (resource base) of
             Inl e \<Rightarrow> Inl e
           | Inr v \<Rightarrow>
               if \<not> truthy v then Inl MissingDefinitionUri
               else (case v of
                       PStr df \<Rightarrow>
                         Inr \<lparr>resource = resource base, on_code_change = on_code_change base,
                              api_validator = DV df, definition_file = df\<rparr>
                     | _ \<Rightarrow> Inl TypeError)))"

definition APIGatewayCodeTrigger_validator_wrapper ::
  "('w, 'x) APIGatewayCodeTrigger \<Rightarrow> ('w, 'x) OnChangeCallback" where
  "APIGatewayCodeTrigger_validator_wrapper t ev w =
     (case api_validator t w of (ok, w') \<Rightarrow> if ok then on_code_change t ev w' else Inr w')"

definition APIGatewayCodeTrigger_get_path_handlers ::
  "pathlib \<Rightarrow> ('w, 'x) APIGatewayCodeTrigger \<Rightarrow> ('w, 'x) PathHandler list" where
  "APIGatewayCodeTrigger_get_path_handlers P t =
     (let file_path_handler = get_single_file_path_handler P (definition_file t)
      in [file_path_handler\<lparr>event_handler :=
            (event_handler file_path_handler)\<lparr>on_any_event := APIGatewayCodeTrigger_validator_wrapper t\<rparr>\<rparr>])"

subsection \<open>A trigger of any concrete class\<close>

text \<open>
  The concrete subclasses of \<open>ResourceTrigger\<close>, with \<open>get_path_handlers\<close> dispatched on
  the class as the method call is.
\<close>

datatype ('w, 'x) ResourceTrigger =
    Template "('w, 'x) TemplateTrigger"
  | LambdaZip "('w, 'x) LambdaFunctionCodeTrigger"
  | LambdaImage "('w, 'x) LambdaFunctionCodeTrigger"
  | LambdaLayer "('w, 'x) LambdaLayerCodeTrigger"
  | APIGateway "('w, 'x) APIGatewayCodeTrigger"

fun get_path_handlers :: "pathlib \<Rightarrow> ('w, 'x) ResourceTrigger \<Rightarrow> ('w, 'x) PathHandler list" where
  "get_path_handlers P (Template t) = TemplateTrigger_get_path_handlers P t"
| "get_path_handlers P (LambdaZip t) = LambdaFunctionCodeTrigger_get_path_handlers P t"
| "get_path_handlers P (LambdaImage t) = LambdaFunctionCodeTrigger_get_path_handlers P t"
| "get_path_handlers P (LambdaLayer t) = LambdaLayerCodeTrigger_get_path_handlers P t"
| "get_path_handlers P (APIGateway t) = APIGatewayCodeTrigger_get_path_handlers P t"

fun directory_based :: "('w, 'x) ResourceTrigger \<Rightarrow> bool" where
  "directory_based (Template t) = False"
| "directory_based (LambdaZip t) = True"
| "directory_based (LambdaImage t) = True"
| "directory_based (LambdaLayer t) = True"
| "directory_based (APIGateway t) = False"

subsection \<open>Fixtures for the examples\<close>

text \<open>
  A \<open>pathlib\<close> for paths that are absolute and normalised already: \<open>resolve\<close> leaves
  them, \<open>parent\<close> drops the last component.
\<close>

definition posix_parent :: "string \<Rightarrow> string" where
  "posix_parent s =
     (let d = rev (drop 1 (dropWhile (\<lambda>c. c \<noteq> CHR ''/'') (rev s)))
      in if d = [] then ''/'' else d)"

definition example_pathlib :: pathlib where
  "example_pathlib = \<lparr>resolve = (\<lambda>s. s), parent = posix_parent\<rparr>"

text \<open>
  The same for a process whose current directory is \<open>/app/src/lib\<close>: the relative path
  \<open>.\<close> resolves to it.
\<close>

definition cwd_pathlib :: pathlib where
  "cwd_pathlib =
     \<lparr>resolve = (\<lambda>s. if s = ''.'' then ''/app/src/lib'' else s), parent = posix_parent\<rparr>"

text \<open>
  A stack set with two functions, two layers, three APIs and a table, and the views
  the function and layer providers give of them.
\<close>

definition example_resources :: "(string \<times> pydict) list" where
  "example_resources =
     [(''Fn1'', [(''Type'', PStr ''AWS::Serverless::Function''),
                 (''Properties'', PDict [(''CodeUri'', PStr ''/app/src'')])]),
      (''Fn2'', [(''Type'', PStr ''AWS::Serverless::Function''),
                 (''Properties'', PDict [(''PackageType'', PStr ''Image'')])]),
      (''Layer1'', [(''Type'', PStr ''AWS::Serverless::LayerVersion''),
                    (''Properties'', PDict [(''ContentUri'', PStr ''/app/layer'')])]),
      (''Layer2'', [(''Type'', PStr ''AWS::Serverless::LayerVersion''),
                    (''Properties'', PDict [])]),
      (''Api1'', [(''Type'', PStr ''AWS::Serverless::Api''),
                  (''Properties'', PDict [(''DefinitionUri'', PStr ''/app/api.yaml'')])]),
      (''Api2'', [(''Type'', PStr ''AWS::Serverless::Api''),
                  (''Properties'', PDict [(''DefinitionUri'', PStr [])])]),
      (''Api3'', [(''Type'', PStr ''AWS::Serverless::Api'')]),
      (''Table1'', [(''Type'', PStr ''AWS::DynamoDB::Table'')])]"

definition example_functions :: "(string \<times> Function) list" where
  "example_functions =
     [(''Fn1'', \<lparr>codeuri = Some ''/app/src'', metadata = None\<rparr>),
      (''Fn2'', \<lparr>codeuri = None, metadata = Some [(''Dockerfile'', Some ''Dockerfile'')]\<rparr>)]"

definition example_layers :: "(string \<times> LayerVersion) list" where
  "example_layers =
     [(''Layer1'', \<lparr>layer_codeuri = Some ''/app/layer''\<rparr>),
      (''Layer2'', \<lparr>layer_codeuri = None\<rparr>)]"

definition example_providers :: "(unit, string) providers" where
  "example_providers =
     \<lparr>get_resource_by_id = (\<lambda>stacks rid. map_of example_resources rid),
      SamFunctionProvider_get = (\<lambda>stacks name. map_of example_functions name),
      SamLayerProvider_get = (\<lambda>stacks name. map_of example_layers name),
      str_of = (\<lambda>rid. rid)\<rparr>"

text \<open>
  A world that holds the answer the validator will give and the list of the events the
  callback was called with.
\<close>

type_synonym example_world = "bool \<times> FileSystemEvent option list"

definition recording_callback :: "(example_world, unit) OnChangeCallback" where
  "recording_callback ev w = Inr (fst w, snd w @ [ev])"

definition flag_validator :: "example_world DefinitionValidator" where
  "flag_validator file w = (fst w, w)"

definition file_event :: "string \<Rightarrow> FileSystemEvent" where
  "file_event p = \<lparr>src_path = p, dest_path = None, is_directory = False\<rparr>"

definition dir_event :: "string \<Rightarrow> FileSystemEvent" where
  "dir_event p = \<lparr>src_path = p, dest_path = None, is_directory = True\<rparr>"

text \<open>The triggers the constructors build from these fixtures.\<close>

definition example_template_trigger :: "(example_world, unit) TemplateTrigger" where
  "example_template_trigger =
     TemplateTrigger_init flag_validator ''/app/template.yaml'' recording_callback"

definition example_zip_trigger :: "(example_world, unit) LambdaFunctionCodeTrigger" where
  "example_zip_trigger =
     \<lparr>resource = [(''Type'', PStr ''AWS::Serverless::Function''),
                  (''Properties'', PDict [(''CodeUri'', PStr ''/app/src'')])],
      on_code_change = recording_callback,
      lambda_function = \<lparr>codeuri = Some ''/app/src'', metadata = None\<rparr>,
      code_uri = ''/app/src''\<rparr>"

definition example_layer_trigger :: "(example_world, unit) LambdaLayerCodeTrigger" where
  "example_layer_trigger =
     \<lparr>resource = [(''Type'', PStr ''AWS::Serverless::LayerVersion''),
                  (''Properties'', PDict [(''ContentUri'', PStr ''/app/layer'')])],
      on_code_change = recording_callback,
      layer = \<lparr>layer_codeuri = Some ''/app/layer''\<rparr>,
      layer_code_uri = ''/app/layer''\<rparr>"

definition example_api_trigger :: "(example_world, unit) APIGatewayCodeTrigger" where
  "example_api_trigger =
     \<lparr>resource = [(''Type'', PStr ''AWS::Serverless::Api''),
                  (''Properties'', PDict [(''DefinitionUri'', PStr ''/app/api.yaml'')])],
      on_code_change = recording_callback,
      api_validator = flag_validator ''/app/api.yaml'',
      definition_file = ''/app/api.yaml''\<rparr>"

section \<open>Properties\<close>

lemmas init_defs =
  CodeResourceTrigger_init_def LambdaFunctionCodeTrigger_init_def
  LambdaZipCodeTrigger_init_def LambdaImageCodeTrigger_init_def
  LambdaLayerCodeTrigger_init_def APIGatewayCodeTrigger_init_def

lemmas example_defs =
  example_providers_def example_resources_def example_functions_def example_layers_def

text \<open>The constructors on the fixtures.\<close>

lemma example_zip_init:
  "LambdaZipCodeTrigger_init example_providers ''Fn1'' [()] recording_callback
     = Inr example_zip_trigger"
  by (simp add: init_defs example_defs example_zip_trigger_def
      LambdaZipCodeTrigger_get_code_uri_def)

lemma example_layer_init:
  "LambdaLayerCodeTrigger_init example_providers ''Layer1'' [()] recording_callback
     = Inr example_layer_trigger"
  by (simp add: init_defs example_defs example_layer_trigger_def)

lemma example_api_init:
  "APIGatewayCodeTrigger_init example_providers flag_validator ''Api1'' [()] recording_callback
     = Inr example_api_trigger"
  by (simp add: init_defs example_defs example_api_trigger_def read_definition_uri_def
      dict_get_def)

subsection \<open>Regular expressions and patterns\<close>

lemma alphanum_plain:
  "alphanum c \<Longrightarrow>
     c \<noteq> CHR ''^'' \<and> c \<noteq> CHR ''$'' \<and> c \<noteq> backslash \<and> \<not> re_special c \<and> c \<noteq> CHR 0x00"
  unfolding alphanum_def alphanum_str_def re_special_def by auto

lemma zero_alphanum: "alphanum (CHR ''0'')"
  unfolding alphanum_def alphanum_str_def by simp

lemma map_option_Cons_append:
  "map_option ((#) x) (map_option (\<lambda>t. xs @ t) r) = map_option (\<lambda>t. x # xs @ t) r"
  by (cases r) simp_all

text \<open>Parsing an escaped string gives back its characters as literals.\<close>

lemma re_parse_escape:
  "re_parse (re_escape s @ r) = map_option (\<lambda>t. map Lit s @ t) (re_parse r)"
proof (induction s)
  case Nil
  show ?case by (cases "re_parse r") simp_all
next
  case (Cons c cs)
  show ?case
  proof (cases "alphanum c")
    case True
    with alphanum_plain [OF True] Cons.IH show ?thesis
      by (simp add: map_option_Cons_append)
  next
    case False
    note na = False
    show ?thesis
    proof (cases "c = CHR 0x00")
      case True
      with na Cons.IH show ?thesis
        by (simp add: map_option_Cons_append)
    next
      case False
      have "c \<noteq> CHR ''0''" using na zero_alphanum by auto
      with na False Cons.IH show ?thesis
        by (simp add: map_option_Cons_append)
    qed
  qed
qed

lemma re_parse_anchored:
  "re_parse (CHR ''^'' # re_escape s @ [CHR ''$'']) = Some (Bol # map Lit s @ [Eol])"
proof -
  have "re_parse [CHR ''$''] = Some [Eol]" by simp
  then have "re_parse (re_escape s @ [CHR ''$'']) = Some (map Lit s @ [Eol])"
    by (simp add: re_parse_escape)
  then show ?thesis by simp
qed

text \<open>The unit test's expected expression for \<open>/parent/file\<close>.\<close>

lemma re_escape_test_single_file_path_handler:
  "[CHR ''^''] @ re_escape ''/parent/file'' @ [CHR ''$'']
     = [CHR ''^'', backslash] @ ''/parent'' @ [backslash] @ ''/file$''"
  by (simp add: alphanum_def alphanum_str_def)

text \<open>
  What the anchored literal expression accepts: the string itself, and the string
  followed by one newline.
\<close>

lemma re_run_literal:
  "re_run True (map Lit p @ [Eol]) st s = (s = p \<or> s = p @ [newline])"
proof (induction p arbitrary: s st)
  case Nil
  show ?case by simp
next
  case (Cons c cs)
  show ?case by (cases s) (auto simp: Cons.IH)
qed

lemma re_match_anchored:
  "re_match True (Bol # map Lit p @ [Eol]) = (\<lambda>s. s = p \<or> s = p @ [newline])"
  by (rule ext) (simp add: re_match_def re_run_literal)

lemma fires_single_file:
  "fires (event_handler (get_single_file_path_handler P f)) ev =
     Some (\<not> is_directory ev
           \<and> list_ex (\<lambda>p. p = resolve P f \<or> p = resolve P f @ [newline]) (event_paths ev))"
  by (simp add: fires_def get_single_file_path_handler_def RegexMatchingEventHandler_def
      Let_def re_parse_anchored re_match_anchored del: re_parse.simps)

lemma fnmatchcase_star: "fnmatchcase s [CHR ''*'']"
  by (induction s) simp_all

text \<open>The pattern \<open>*\<close> matches exactly the paths that have a part.\<close>

lemma parse_parts_star: "parse_parts [CHR ''*''] = ([], [[CHR ''*'']])"
  by (simp add: parse_parts_def splitroot_def)

lemma parts_match_star:
  "parts \<noteq> [] \<Longrightarrow> parts_match parts [[CHR ''*'']]"
  by (cases "rev parts") (simp_all add: parts_match_def fnmatchcase_star)

lemma PurePosixPath_match_star:
  "PurePosixPath_match p [CHR ''*''] = Some (path_parts p \<noteq> [])"
  by (cases "path_parts p")
    (simp_all add: PurePosixPath_match_def parse_parts_star pattern_supported_def
      parts_match_star)

lemma match_path_star: "match_path p [[CHR ''*'']] [] = Some (path_parts p \<noteq> [])"
  by (simp add: match_path_def PurePosixPath_match_star)

lemma those_map_Some: "those (map (\<lambda>x. Some (g x)) xs) = Some (map g xs)"
  by (induction xs) simp_all

lemma match_any_paths_star:
  "match_any_paths ps [[CHR ''*'']] [] True = Some (list_ex (\<lambda>p. path_parts p \<noteq> []) ps)"
  by (simp add: match_any_paths_def match_path_star those_map_Some list_ex_iff)

lemma fires_dir:
  "fires (event_handler (get_dir_path_handler P d)) ev
     = Some (list_ex (\<lambda>p. path_parts p \<noteq> []) (event_paths ev))"
  by (simp add: fires_def get_dir_path_handler_def PatternMatchingEventHandler_def Let_def
      match_any_paths_star)

text \<open>An absolute path has a part, its root; a path that has a part is not empty.\<close>

lemma absolute_path_parts: "path_parts (CHR ''/'' # p) \<noteq> []"
proof -
  have "length (dropWhile (\<lambda>c. c = CHR ''/'') p) \<le> length p"
    by (rule length_dropWhile_le)
  then show ?thesis
    by (simp add: path_parts_def parse_parts_def splitroot_def Let_def)
qed

lemma relative_path_parts:
  "c \<noteq> CHR ''/'' \<Longrightarrow>
     path_parts (c # p) = filter (\<lambda>x. x \<noteq> [] \<and> x \<noteq> ''.'') (split_on (CHR ''/'') (c # p))"
  by (simp add: path_parts_def parse_parts_def splitroot_def)

lemma path_parts_nonempty: "path_parts p \<noteq> [] \<Longrightarrow> p \<noteq> []"
  by (auto simp: path_parts_def parse_parts_def)

subsection \<open>Construction failures\<close>

text \<open>
  Claim C1. When \<open>get_resource_by_id\<close> returns nothing, the constructor of
  \<open>CodeResourceTrigger\<close> and of each of its subclasses raises \<open>ResourceNotFound\<close>. When
  the base constructor succeeds and the function provider returns nothing, the
  constructor of \<open>LambdaFunctionCodeTrigger\<close> (whatever its \<open>_get_code_uri\<close>) and of its
  two subclasses raises \<open>FunctionNotFound\<close>. In both cases the result is the exception
  alone: no trigger, hence no resource record, function view or code uri, comes back.
\<close>

theorem lookup_failure_raises:
  "(get_resource_by_id E stacks rid = None \<longrightarrow>
      CodeResourceTrigger_init E rid stacks cb = Inl ResourceNotFound
    \<and> LambdaFunctionCodeTrigger_init E strategy rid stacks cb = Inl ResourceNotFound
    \<and> LambdaZipCodeTrigger_init E rid stacks cb = Inl ResourceNotFound
    \<and> LambdaImageCodeTrigger_init E rid stacks cb = Inl ResourceNotFound
    \<and> LambdaLayerCodeTrigger_init E rid stacks cb = Inl ResourceNotFound
    \<and> APIGatewayCodeTrigger_init E DV rid stacks cb = Inl ResourceNotFound)
 \<and> (CodeResourceTrigger_init E rid stacks cb = Inr base
      \<and> SamFunctionProvider_get E stacks (str_of E rid) = None \<longrightarrow>
      LambdaFunctionCodeTrigger_init E strategy rid stacks cb = Inl FunctionNotFound
    \<and> LambdaZipCodeTrigger_init E rid stacks cb = Inl FunctionNotFound
    \<and> LambdaImageCodeTrigger_init E rid stacks cb = Inl FunctionNotFound)"
  by (simp add: init_defs)

theorem lookup_failure_raises_witness:
  "get_resource_by_id example_providers [()] ''Ghost'' = None
   \<and> LambdaZipCodeTrigger_init example_providers ''Ghost'' [()] recording_callback
       = Inl ResourceNotFound
   \<and> APIGatewayCodeTrigger_init example_providers flag_validator ''Ghost'' [()] recording_callback
       = Inl ResourceNotFound
   \<and> CodeResourceTrigger_init example_providers ''Table1'' [()] recording_callback
       = Inr \<lparr>resource = [(''Type'', PStr ''AWS::DynamoDB::Table'')],
              on_code_change = recording_callback\<rparr>
   \<and> SamFunctionProvider_get example_providers [()] (str_of example_providers ''Table1'') = None
   \<and> LambdaZipCodeTrigger_init example_providers ''Table1'' [()] recording_callback
       = Inl FunctionNotFound
   \<and> LambdaImageCodeTrigger_init example_providers ''Table1'' [()] recording_callback
       = Inl FunctionNotFound"
proof -
  have a: "get_resource_by_id example_providers [()] ''Ghost'' = None"
    by (simp add: example_defs)
  have b: "CodeResourceTrigger_init example_providers ''Table1'' [()] recording_callback
       = Inr \<lparr>resource = [(''Type'', PStr ''AWS::DynamoDB::Table'')],
              on_code_change = recording_callback\<rparr>"
    by (simp add: example_defs CodeResourceTrigger_init_def)
  have c: "SamFunctionProvider_get example_providers [()] (str_of example_providers ''Table1'') = None"
    by (simp add: example_defs)
  from a b c
    lookup_failure_raises [where E = example_providers and stacks = "[()]" and rid = "''Ghost''"
      and cb = recording_callback and DV = flag_validator]
    lookup_failure_raises [where E = example_providers and stacks = "[()]" and rid = "''Table1''"
      and cb = recording_callback]
  show ?thesis by simp
qed

subsection \<open>Validated forwarding\<close>

text \<open>
  Claim C2. The \<open>on_any_event\<close> installed on the path handler of a \<open>TemplateTrigger\<close>
  and of an \<open>APIGatewayCodeTrigger\<close> first asks the validator bound to the file. When
  \<open>validate\<close> answers false the callback is not called and nothing is raised: the
  result is the world the validator left. When it answers true the result is the
  supplied callback applied once, to the same event, in the world the validator left.
\<close>

theorem validator_wrapper_gates_callback:
  "(h \<in> set (TemplateTrigger_get_path_handlers P (TemplateTrigger_init DV tf cb)) \<longrightarrow>
      (DV tf w = (False, w') \<longrightarrow> on_any_event (event_handler h) ev w = Inr w')
    \<and> (DV tf w = (True, w') \<longrightarrow> on_any_event (event_handler h) ev w = cb ev w'))
 \<and> (APIGatewayCodeTrigger_init E DV rid stacks cb = Inr t
      \<and> h \<in> set (APIGatewayCodeTrigger_get_path_handlers P t) \<longrightarrow>
      (DV (definition_file t) w = (False, w') \<longrightarrow> on_any_event (event_handler h) ev w = Inr w')
    \<and> (DV (definition_file t) w = (True, w') \<longrightarrow> on_any_event (event_handler h) ev w = cb ev w'))"
proof (intro conjI impI)
  assume "h \<in> set (TemplateTrigger_get_path_handlers P (TemplateTrigger_init DV tf cb))"
  then have eq: "on_any_event (event_handler h)
      = TemplateTrigger_validator_wrapper (TemplateTrigger_init DV tf cb)"
    by (simp add: TemplateTrigger_get_path_handlers_def Let_def)
  { assume "DV tf w = (False, w')"
    then show "on_any_event (event_handler h) ev w = Inr w'"
      by (simp add: eq TemplateTrigger_validator_wrapper_def TemplateTrigger_init_def) }
  { assume "DV tf w = (True, w')"
    then show "on_any_event (event_handler h) ev w = cb ev w'"
      by (simp add: eq TemplateTrigger_validator_wrapper_def TemplateTrigger_init_def) }
next
  assume a: "APIGatewayCodeTrigger_init E DV rid stacks cb = Inr t
      \<and> h \<in> set (APIGatewayCodeTrigger_get_path_handlers P t)"
  then have eq: "on_any_event (event_handler h) = APIGatewayCodeTrigger_validator_wrapper t"
    by (simp add: APIGatewayCodeTrigger_get_path_handlers_def Let_def)
  from a have t: "api_validator t = DV (definition_file t) \<and> on_code_change t = cb"
    by (auto simp: APIGatewayCodeTrigger_init_def CodeResourceTrigger_init_def
        split: option.splits sum.splits if_splits pyval.splits)
  { assume "DV (definition_file t) w = (False, w')"
    then show "on_any_event (event_handler h) ev w = Inr w'"
      by (simp add: eq t APIGatewayCodeTrigger_validator_wrapper_def) }
  { assume "DV (definition_file t) w = (True, w')"
    then show "on_any_event (event_handler h) ev w = cb ev w'"
      by (simp add: eq t APIGatewayCodeTrigger_validator_wrapper_def) }
qed

theorem validator_wrapper_gates_callback_witness:
  "on_any_event (event_handler (hd (TemplateTrigger_get_path_handlers example_pathlib
       example_template_trigger))) (Some (file_event ''/app/template.yaml'')) (False, [])
     = Inr (False, [])
 \<and> on_any_event (event_handler (hd (TemplateTrigger_get_path_handlers example_pathlib
       example_template_trigger))) (Some (file_event ''/app/template.yaml'')) (True, [])
     = Inr (True, [Some (file_event ''/app/template.yaml'')])
 \<and> on_any_event (event_handler (hd (APIGatewayCodeTrigger_get_path_handlers example_pathlib
       example_api_trigger))) (Some (file_event ''/app/api.yaml'')) (False, [])
     = Inr (False, [])
 \<and> on_any_event (event_handler (hd (APIGatewayCodeTrigger_get_path_handlers example_pathlib
       example_api_trigger))) (Some (file_event ''/app/api.yaml'')) (True, [])
     = Inr (True, [Some (file_event ''/app/api.yaml'')])"
proof -
  define h where "h = hd (TemplateTrigger_get_path_handlers example_pathlib
      (TemplateTrigger_init flag_validator ''/app/template.yaml'' recording_callback))"
  define g where "g = hd (APIGatewayCodeTrigger_get_path_handlers example_pathlib
      example_api_trigger)"
  have h: "h \<in> set (TemplateTrigger_get_path_handlers example_pathlib
      (TemplateTrigger_init flag_validator ''/app/template.yaml'' recording_callback))"
    by (simp add: h_def TemplateTrigger_get_path_handlers_def Let_def)
  have g: "g \<in> set (APIGatewayCodeTrigger_get_path_handlers example_pathlib
      example_api_trigger)"
    by (simp add: g_def APIGatewayCodeTrigger_get_path_handlers_def Let_def)
  have vf: "flag_validator f (False, []) = (False, (False, []))"
    and vt: "flag_validator f (True, []) = (True, (True, []))" for f
    by (simp_all add: flag_validator_def)
  have df: "definition_file example_api_trigger = ''/app/api.yaml''"
    by (simp add: example_api_trigger_def)
  note th = validator_wrapper_gates_callback [where P = example_pathlib and DV = flag_validator
      and tf = "''/app/template.yaml''" and cb = recording_callback and h = h
      and E = example_providers and rid = "''Api1''" and stacks = "[()]"
      and t = example_api_trigger]
  note tg = validator_wrapper_gates_callback [where P = example_pathlib and DV = flag_validator
      and tf = "''/app/template.yaml''" and cb = recording_callback and h = g
      and E = example_providers and rid = "''Api1''" and stacks = "[()]"
      and t = example_api_trigger]
  have "on_any_event (event_handler h) (Some (file_event ''/app/template.yaml'')) (False, [])
        = Inr (False, [])"
    using h vf th [where w = "(False, [])" and w' = "(False, [])"] by simp
  moreover have "on_any_event (event_handler h) (Some (file_event ''/app/template.yaml'')) (True, [])
        = Inr (True, [Some (file_event ''/app/template.yaml'')])"
    using h vt th [where w = "(True, [])" and w' = "(True, [])"
        and ev = "Some (file_event ''/app/template.yaml'')"]
    by (simp add: recording_callback_def)
  moreover have "on_any_event (event_handler g) (Some (file_event ''/app/api.yaml'')) (False, [])
        = Inr (False, [])"
    using g vf df example_api_init tg [where w = "(False, [])" and w' = "(False, [])"] by simp
  moreover have "on_any_event (event_handler g) (Some (file_event ''/app/api.yaml'')) (True, [])
        = Inr (True, [Some (file_event ''/app/api.yaml'')])"
    using g vt df example_api_init tg [where w = "(True, [])" and w' = "(True, [])"
        and ev = "Some (file_event ''/app/api.yaml'')"]
    by (simp add: recording_callback_def)
  ultimately show ?thesis
    unfolding h_def g_def example_template_trigger_def by simp
qed

subsection \<open>The two factories\<close>

text \<open>
  Claim C3, evaluated at the file \<open>/parent/file\<close> of the unit test. The path handler
  watches the parent directory and is not recursive, and its rule is the escaped
  expression the test expects; the rule fires for the file itself and not for
  \<open>/parent/file2\<close>, but it also fires for the path \<open>/parent/file\<close> followed by a newline
  character, a path that differs from the file by one character: \<open>$\<close> matches just
  before a newline that ends the string.
\<close>

theorem single_file_rule_fires_on_trailing_newline:
  "(let h = get_single_file_path_handler example_pathlib ''/parent/file''
              :: (example_world, unit) PathHandler
    in path h = ''/parent''
     \<and> \<not> recursive h
     \<and> rule (event_handler h)
         = Regexes [[CHR ''^'', backslash] @ ''/parent'' @ [backslash] @ ''/file$''] []
     \<and> fires (event_handler h) (file_event ''/parent/file'') = Some True
     \<and> fires (event_handler h) (file_event (''/parent/file'' @ [newline])) = Some True
     \<and> fires (event_handler h) (file_event ''/parent/file2'') = Some False)"
  unfolding Let_def
  apply (simp add: fires_single_file event_paths_def file_event_def)
  apply (simp add: get_single_file_path_handler_def RegexMatchingEventHandler_def Let_def
      example_pathlib_def posix_parent_def alphanum_def alphanum_str_def)
  done

text \<open>
  Claim C4 says that the rule of a directory handler matches any path, relative or
  absolute, inside the directory tree. The handler for \<open>/app/src\<close> fires for the
  directory \<open>/app/src/lib\<close> under its absolute path, and does not fire for the relative
  path \<open>.\<close> of the same directory: \<open>PurePosixPath(".")\<close> has no part, and the pattern
  \<open>*\<close> needs one.
\<close>

theorem dir_rule_skips_dot_counterexample:
  "path (get_dir_path_handler cwd_pathlib ''/app/src'' :: (example_world, unit) PathHandler)
     = ''/app/src''
 \<and> resolve cwd_pathlib ''.'' = ''/app/src/lib''
 \<and> fires (event_handler (get_dir_path_handler cwd_pathlib ''/app/src''
       :: (example_world, unit) PathHandler)) (dir_event ''/app/src/lib'') = Some True
 \<and> match_any_paths [''.''] [[CHR ''*'']] [] True = Some False
 \<and> fires (event_handler (get_dir_path_handler cwd_pathlib ''/app/src''
       :: (example_world, unit) PathHandler)) (dir_event ''.'') = Some False"
proof -
  have "path_parts ''.'' = []" and "path_parts ''/app/src/lib'' \<noteq> []"
    by (simp_all add: path_parts_def parse_parts_def splitroot_def)
  then have "fires (event_handler (get_dir_path_handler cwd_pathlib ''/app/src''
       :: (example_world, unit) PathHandler)) (dir_event ''.'') = Some False"
    and "fires (event_handler (get_dir_path_handler cwd_pathlib ''/app/src''
       :: (example_world, unit) PathHandler)) (dir_event ''/app/src/lib'') = Some True"
    and "match_any_paths [''.''] [[CHR ''*'']] [] True = Some False"
    by (simp_all add: fires_dir match_any_paths_star event_paths_def dir_event_def)
  then show ?thesis
    by (simp add: get_dir_path_handler_def cwd_pathlib_def)
qed

text \<open>
  Claim C4, amended. The path handler of a directory watches the resolved directory,
  is recursive and a static folder, and its rule is the single pattern \<open>*\<close>, which
  matches exactly the paths that have at least one part: every absolute path, and
  every relative path that has a component other than \<open>.\<close> between its slashes. The
  handler fires for every event whose source path has a part.
\<close>

theorem dir_path_handler_shape:
  "(let h = get_dir_path_handler P d :: ('w, 'x) PathHandler in
      path h = resolve P d
    \<and> recursive h
    \<and> static_folder h
    \<and> rule (event_handler h) = Patterns [[CHR ''*'']] []
    \<and> (\<forall>p. match_any_paths [p] [[CHR ''*'']] [] True = Some (path_parts p \<noteq> []))
    \<and> (\<forall>p. path_parts (CHR ''/'' # p) \<noteq> [])
    \<and> (\<forall>c p. c \<noteq> CHR ''/'' \<longrightarrow>
          path_parts (c # p)
            = filter (\<lambda>x. x \<noteq> [] \<and> x \<noteq> ''.'') (split_on (CHR ''/'') (c # p)))
    \<and> (path_parts (src_path ev) \<noteq> [] \<longrightarrow> fires (event_handler h) ev = Some True))"
proof -
  have "fires (event_handler (get_dir_path_handler P d :: ('w, 'x) PathHandler)) ev = Some True"
    if "path_parts (src_path ev) \<noteq> []"
    using that path_parts_nonempty [OF that] by (simp add: fires_dir event_paths_def)
  then show ?thesis
    by (simp add: Let_def match_any_paths_star absolute_path_parts relative_path_parts
        get_dir_path_handler_def PatternMatchingEventHandler_def)
qed

theorem dir_path_handler_shape_witness:
  "path_parts (src_path (dir_event ''/app/src/lib'')) \<noteq> []
 \<and> fires (event_handler (get_dir_path_handler example_pathlib ''/app/src''
       :: (example_world, unit) PathHandler)) (dir_event ''/app/src/lib'') = Some True
 \<and> path_parts (src_path (file_event ''lib/handler.py'')) \<noteq> []
 \<and> fires (event_handler (get_dir_path_handler example_pathlib ''/app/src''
       :: (example_world, unit) PathHandler)) (file_event ''lib/handler.py'') = Some True
 \<and> path (get_dir_path_handler example_pathlib ''/app/src''
       :: (example_world, unit) PathHandler) = ''/app/src''"
proof -
  have a: "path_parts (src_path (dir_event ''/app/src/lib'')) \<noteq> []"
    and b: "path_parts (src_path (file_event ''lib/handler.py'')) \<noteq> []"
    by (simp_all add: dir_event_def file_event_def path_parts_def parse_parts_def splitroot_def)
  have r: "resolve example_pathlib ''/app/src'' = ''/app/src''"
    by (simp add: example_pathlib_def)
  from a b r
    dir_path_handler_shape [where ?'w = example_world and ?'x = unit
      and P = example_pathlib and d = "''/app/src''" and ev = "dir_event ''/app/src/lib''"]
    dir_path_handler_shape [where ?'w = example_world and ?'x = unit
      and P = example_pathlib and d = "''/app/src''" and ev = "file_event ''lib/handler.py''"]
  show ?thesis by (simp add: Let_def)
qed

subsection \<open>Code locations\<close>

text \<open>
  Claim C5. \<open>LambdaZipCodeTrigger._get_code_uri\<close> is the \<open>codeuri\<close> field of the function
  as it is. \<open>LambdaImageCodeTrigger._get_code_uri\<close> is nothing when the function has no
  metadata or the metadata has no \<open>DockerContext\<close>, and the \<open>DockerContext\<close> value
  otherwise. For a function that both lookups find, each of the two constructors
  raises \<open>MissingCodeUri\<close> exactly when its strategy gives nothing or the empty string.
\<close>

theorem code_uri_strategies:
  "LambdaZipCodeTrigger_get_code_uri f = codeuri f
 \<and> LambdaImageCodeTrigger_get_code_uri f =
     (case metadata f of None \<Rightarrow> None
      | Some m \<Rightarrow> (case map_of m ''DockerContext'' of None \<Rightarrow> None | Some v \<Rightarrow> v))
 \<and> (CodeResourceTrigger_init E rid stacks cb = Inr base
      \<and> SamFunctionProvider_get E stacks (str_of E rid) = Some f \<longrightarrow>
      (LambdaZipCodeTrigger_init E rid stacks cb = Inl MissingCodeUri
         \<longleftrightarrow> LambdaZipCodeTrigger_get_code_uri f \<in> {None, Some []})
    \<and> (LambdaImageCodeTrigger_init E rid stacks cb = Inl MissingCodeUri
         \<longleftrightarrow> LambdaImageCodeTrigger_get_code_uri f \<in> {None, Some []}))"
  by (auto simp: init_defs LambdaImageCodeTrigger_get_code_uri_def
      LambdaZipCodeTrigger_get_code_uri_def split: option.splits)

theorem code_uri_strategies_witness:
  "CodeResourceTrigger_init example_providers ''Fn2'' [()] recording_callback
     = Inr \<lparr>resource = [(''Type'', PStr ''AWS::Serverless::Function''),
                          (''Properties'', PDict [(''PackageType'', PStr ''Image'')])],
            on_code_change = recording_callback\<rparr>
 \<and> SamFunctionProvider_get example_providers [()] (str_of example_providers ''Fn2'')
     = Some \<lparr>codeuri = None, metadata = Some [(''Dockerfile'', Some ''Dockerfile'')]\<rparr>
 \<and> LambdaZipCodeTrigger_init example_providers ''Fn2'' [()] recording_callback
     = Inl MissingCodeUri
 \<and> LambdaImageCodeTrigger_init example_providers ''Fn2'' [()] recording_callback
     = Inl MissingCodeUri"
proof -
  have a: "CodeResourceTrigger_init example_providers ''Fn2'' [()] recording_callback
     = Inr \<lparr>resource = [(''Type'', PStr ''AWS::Serverless::Function''),
                          (''Properties'', PDict [(''PackageType'', PStr ''Image'')])],
            on_code_change = recording_callback\<rparr>"
    by (simp add: example_defs CodeResourceTrigger_init_def)
  have b: "SamFunctionProvider_get example_providers [()] (str_of example_providers ''Fn2'')
     = Some \<lparr>codeuri = None, metadata = Some [(''Dockerfile'', Some ''Dockerfile'')]\<rparr>"
    by (simp add: example_defs)
  from a b
    code_uri_strategies [where E = example_providers and rid = "''Fn2''" and stacks = "[()]"
      and cb = recording_callback
      and f = "\<lparr>codeuri = None, metadata = Some [(''Dockerfile'', Some ''Dockerfile'')]\<rparr>"]
  show ?thesis by simp
qed

text \<open>
  Claim C6. The path handlers of a constructed function trigger (of either subclass)
  and of a constructed layer trigger are one directory handler whose \<open>on_any_event\<close>,
  \<open>self_create\<close> and \<open>self_delete\<close> are the callback given to the constructor itself, not
  a wrapper around it.
\<close>

theorem code_triggers_wire_callback_unwrapped:
  "(LambdaFunctionCodeTrigger_init E strategy rid stacks cb = Inr t \<longrightarrow>
      (\<exists>h. LambdaFunctionCodeTrigger_get_path_handlers P t = [h]
           \<and> on_any_event (event_handler h) = cb
           \<and> self_create h = Some cb \<and> self_delete h = Some cb))
 \<and> (LambdaZipCodeTrigger_init E rid stacks cb = Inr t \<longrightarrow>
      (\<exists>h. LambdaFunctionCodeTrigger_get_path_handlers P t = [h]
           \<and> on_any_event (event_handler h) = cb
           \<and> self_create h = Some cb \<and> self_delete h = Some cb))
 \<and> (LambdaImageCodeTrigger_init E rid stacks cb = Inr t \<longrightarrow>
      (\<exists>h. LambdaFunctionCodeTrigger_get_path_handlers P t = [h]
           \<and> on_any_event (event_handler h) = cb
           \<and> self_create h = Some cb \<and> self_delete h = Some cb))
 \<and> (LambdaLayerCodeTrigger_init E rid stacks cb = Inr l \<longrightarrow>
      (\<exists>h. LambdaLayerCodeTrigger_get_path_handlers P l = [h]
           \<and> on_any_event (event_handler h) = cb
           \<and> self_create h = Some cb \<and> self_delete h = Some cb))"
  by (auto simp: init_defs LambdaFunctionCodeTrigger_get_path_handlers_def
      LambdaLayerCodeTrigger_get_path_handlers_def Let_def
      split: option.splits sum.splits if_splits)

theorem code_triggers_wire_callback_unwrapped_witness:
  "LambdaZipCodeTrigger_init example_providers ''Fn1'' [()] recording_callback
     = Inr example_zip_trigger
 \<and> LambdaLayerCodeTrigger_init example_providers ''Layer1'' [()] recording_callback
     = Inr example_layer_trigger
 \<and> (\<exists>h. LambdaFunctionCodeTrigger_get_path_handlers example_pathlib example_zip_trigger = [h]
        \<and> on_any_event (event_handler h) = recording_callback
        \<and> self_create h = Some recording_callback \<and> self_delete h = Some recording_callback)
 \<and> (\<exists>h. LambdaLayerCodeTrigger_get_path_handlers example_pathlib example_layer_trigger = [h]
        \<and> on_any_event (event_handler h) = recording_callback
        \<and> self_create h = Some recording_callback \<and> self_delete h = Some recording_callback)"
  using example_zip_init example_layer_init
    code_triggers_wire_callback_unwrapped [where E = example_providers and rid = "''Fn1''"
      and stacks = "[()]" and cb = recording_callback and t = example_zip_trigger
      and P = example_pathlib]
    code_triggers_wire_callback_unwrapped [where E = example_providers and rid = "''Layer1''"
      and stacks = "[()]" and cb = recording_callback and l = example_layer_trigger
      and P = example_pathlib]
  by simp

text \<open>
  Claim C7. When the base constructor succeeds, the constructor of
  \<open>LambdaLayerCodeTrigger\<close> raises the generic \<open>ResourceNotFound\<close> if the layer provider
  returns nothing, and \<open>MissingCodeUri\<close> if the layer it returns has no \<open>codeuri\<close> or an
  empty one.
\<close>

theorem layer_lookup_errors:
  "(CodeResourceTrigger_init E rid stacks cb = Inr base
      \<and> SamLayerProvider_get E stacks (str_of E rid) = None \<longrightarrow>
      LambdaLayerCodeTrigger_init E rid stacks cb = Inl ResourceNotFound)
 \<and> (CodeResourceTrigger_init E rid stacks cb = Inr base
      \<and> SamLayerProvider_get E stacks (str_of E rid) = Some l
      \<and> layer_codeuri l \<in> {None, Some []} \<longrightarrow>
      LambdaLayerCodeTrigger_init E rid stacks cb = Inl MissingCodeUri)"
  by (auto simp: init_defs)

theorem layer_lookup_errors_witness:
  "CodeResourceTrigger_init example_providers ''Fn1'' [()] recording_callback
     = Inr \<lparr>resource = [(''Type'', PStr ''AWS::Serverless::Function''),
                          (''Properties'', PDict [(''CodeUri'', PStr ''/app/src'')])],
            on_code_change = recording_callback\<rparr>
 \<and> SamLayerProvider_get example_providers [()] (str_of example_providers ''Fn1'') = None
 \<and> LambdaLayerCodeTrigger_init example_providers ''Fn1'' [()] recording_callback
     = Inl ResourceNotFound
 \<and> CodeResourceTrigger_init example_providers ''Layer2'' [()] recording_callback
     = Inr \<lparr>resource = [(''Type'', PStr ''AWS::Serverless::LayerVersion''),
                          (''Properties'', PDict [])],
            on_code_change = recording_callback\<rparr>
 \<and> SamLayerProvider_get example_providers [()] (str_of example_providers ''Layer2'')
     = Some \<lparr>layer_codeuri = None\<rparr>
 \<and> LambdaLayerCodeTrigger_init example_providers ''Layer2'' [()] recording_callback
     = Inl MissingCodeUri"
proof -
  have a: "CodeResourceTrigger_init example_providers ''Fn1'' [()] recording_callback
     = Inr \<lparr>resource = [(''Type'', PStr ''AWS::Serverless::Function''),
                          (''Properties'', PDict [(''CodeUri'', PStr ''/app/src'')])],
            on_code_change = recording_callback\<rparr>"
    by (simp add: example_defs CodeResourceTrigger_init_def)
  have b: "SamLayerProvider_get example_providers [()] (str_of example_providers ''Fn1'') = None"
    by (simp add: example_defs)
  have c: "CodeResourceTrigger_init example_providers ''Layer2'' [()] recording_callback
     = Inr \<lparr>resource = [(''Type'', PStr ''AWS::Serverless::LayerVersion''),
                          (''Properties'', PDict [])],
            on_code_change = recording_callback\<rparr>"
    by (simp add: example_defs CodeResourceTrigger_init_def)
  have d: "SamLayerProvider_get example_providers [()] (str_of example_providers ''Layer2'')
     = Some \<lparr>layer_codeuri = None\<rparr>"
    by (simp add: example_defs)
  from a b c d
    layer_lookup_errors [where E = example_providers and rid = "''Fn1''" and stacks = "[()]"
      and cb = recording_callback]
    layer_lookup_errors [where E = example_providers and rid = "''Layer2''" and stacks = "[()]"
      and cb = recording_callback and l = "\<lparr>layer_codeuri = None\<rparr>"]
  show ?thesis by simp
qed

subsection \<open>The definition file of an API\<close>

text \<open>
  Claim C8 says that the constructor of \<open>APIGatewayCodeTrigger\<close> raises
  \<open>MissingDefinitionUri\<close> exactly when the \<open>DefinitionUri\<close> value is absent. The resource
  \<open>Api2\<close> has a \<open>DefinitionUri\<close>, the empty string, and the constructor raises
  \<open>MissingDefinitionUri\<close> for it: the check is \<open>if not definition_file\<close>.
\<close>

theorem definition_uri_empty_counterexample:
  "get_resource_by_id example_providers [()] ''Api2''
     = Some [(''Type'', PStr ''AWS::Serverless::Api''),
             (''Properties'', PDict [(''DefinitionUri'', PStr [])])]
 \<and> map_of [(''DefinitionUri'', PStr [])] ''DefinitionUri'' = Some (PStr [])
 \<and> APIGatewayCodeTrigger_init example_providers flag_validator ''Api2'' [()] recording_callback
     = Inl MissingDefinitionUri"
  by (simp add: init_defs example_defs read_definition_uri_def dict_get_def)

text \<open>
  Claim C8, amended. After the base constructor has succeeded: when the record has no
  \<open>Properties\<close> the read gives nothing without failing, and the constructor raises
  \<open>MissingDefinitionUri\<close>; when \<open>Properties\<close> is a dictionary the value read is its
  \<open>DefinitionUri\<close> entry; and whenever the read returns, the constructor raises
  \<open>MissingDefinitionUri\<close> exactly when the value read is absent or empty, that is, not
  true in Python's sense.
\<close>

theorem api_definition_uri:
  "CodeResourceTrigger_init E rid stacks cb = Inr base \<longrightarrow>
     (map_of (resource base) ''Properties'' = None \<longrightarrow>
        read_definition_uri (resource base) = Inr PNone
      \<and> APIGatewayCodeTrigger_init E DV rid stacks cb = Inl MissingDefinitionUri)
   \<and> (map_of (resource base) ''Properties'' = Some (PDict props) \<longrightarrow>
        read_definition_uri (resource base) = Inr (dict_get props ''DefinitionUri'' PNone))
   \<and> (read_definition_uri (resource base) = Inr v \<longrightarrow>
        (APIGatewayCodeTrigger_init E DV rid stacks cb = Inl MissingDefinitionUri
           \<longleftrightarrow> \<not> truthy v))"
  by (auto simp: APIGatewayCodeTrigger_init_def read_definition_uri_def dict_get_def
      split: pyval.splits)

theorem api_definition_uri_witness:
  "CodeResourceTrigger_init example_providers ''Api3'' [()] recording_callback
     = Inr \<lparr>resource = [(''Type'', PStr ''AWS::Serverless::Api'')],
            on_code_change = recording_callback\<rparr>
 \<and> map_of [(''Type'', PStr ''AWS::Serverless::Api'')] ''Properties'' = None
 \<and> APIGatewayCodeTrigger_init example_providers flag_validator ''Api3'' [()] recording_callback
     = Inl MissingDefinitionUri
 \<and> CodeResourceTrigger_init example_providers ''Api1'' [()] recording_callback
     = Inr \<lparr>resource = [(''Type'', PStr ''AWS::Serverless::Api''),
                          (''Properties'', PDict [(''DefinitionUri'', PStr ''/app/api.yaml'')])],
            on_code_change = recording_callback\<rparr>
 \<and> read_definition_uri [(''Type'', PStr ''AWS::Serverless::Api''),
        (''Properties'', PDict [(''DefinitionUri'', PStr ''/app/api.yaml'')])]
     = Inr (PStr ''/app/api.yaml'')
 \<and> APIGatewayCodeTrigger_init example_providers flag_validator ''Api1'' [()] recording_callback
     \<noteq> Inl MissingDefinitionUri"
proof -
  have a: "CodeResourceTrigger_init example_providers ''Api3'' [()] recording_callback
     = Inr \<lparr>resource = [(''Type'', PStr ''AWS::Serverless::Api'')],
            on_code_change = recording_callback\<rparr>"
    by (simp add: example_defs CodeResourceTrigger_init_def)
  have b: "map_of [(''Type'', PStr ''AWS::Serverless::Api'')] ''Properties'' = None"
    by simp
  have c: "CodeResourceTrigger_init example_providers ''Api1'' [()] recording_callback
     = Inr \<lparr>resource = [(''Type'', PStr ''AWS::Serverless::Api''),
                          (''Properties'', PDict [(''DefinitionUri'', PStr ''/app/api.yaml'')])],
            on_code_change = recording_callback\<rparr>"
    by (simp add: example_defs CodeResourceTrigger_init_def)
  have d: "map_of [(''Type'', PStr ''AWS::Serverless::Api''),
        (''Properties'', PDict [(''DefinitionUri'', PStr ''/app/api.yaml'')])] ''Properties''
     = Some (PDict [(''DefinitionUri'', PStr ''/app/api.yaml'')])"
    by simp
  have e: "dict_get [(''DefinitionUri'', PStr ''/app/api.yaml'')] ''DefinitionUri'' PNone
     = PStr ''/app/api.yaml''"
    by (simp add: dict_get_def)
  note t3 = api_definition_uri [where E = example_providers and rid = "''Api3''"
      and stacks = "[()]" and cb = recording_callback and DV = flag_validator
      and base = "\<lparr>resource = [(''Type'', PStr ''AWS::Serverless::Api'')],
            on_code_change = recording_callback\<rparr>"]
  note t1 = api_definition_uri [where E = example_providers and rid = "''Api1''"
      and stacks = "[()]" and cb = recording_callback and DV = flag_validator
      and props = "[(''DefinitionUri'', PStr ''/app/api.yaml'')]"
      and v = "PStr ''/app/api.yaml''"
      and base = "\<lparr>resource = [(''Type'', PStr ''AWS::Serverless::Api''),
                          (''Properties'', PDict [(''DefinitionUri'', PStr ''/app/api.yaml'')])],
            on_code_change = recording_callback\<rparr>"]
  from a b c d e t3 t1 show ?thesis by (simp add: dict_get_def)
qed

subsection \<open>Every trigger\<close>

text \<open>
  Claim C9. \<open>get_path_handlers\<close> of a trigger of any concrete class returns exactly one
  path handler, which is recursive for the function and layer triggers and not
  recursive for the template and API triggers.
\<close>

theorem one_path_handler_per_trigger:
  "\<exists>h. get_path_handlers P t = [h] \<and> recursive h = directory_based t"
  by (cases t)
    (simp_all add: TemplateTrigger_get_path_handlers_def
      LambdaFunctionCodeTrigger_get_path_handlers_def LambdaLayerCodeTrigger_get_path_handlers_def
      APIGatewayCodeTrigger_get_path_handlers_def get_single_file_path_handler_def
      get_dir_path_handler_def Let_def)

theorem one_path_handler_per_trigger_witness:
  "(\<exists>h. get_path_handlers example_pathlib (LambdaZip example_zip_trigger) = [h] \<and> recursive h)
 \<and> (\<exists>h. get_path_handlers example_pathlib (APIGateway example_api_trigger) = [h]
        \<and> \<not> recursive h)"
  using one_path_handler_per_trigger [of example_pathlib "LambdaZip example_zip_trigger"]
    one_path_handler_per_trigger [of example_pathlib "APIGateway example_api_trigger"]
  by simp

subsection \<open>Directory events and letter case\<close>



end
